theory Spec2Isabelle
  imports Main
begin

section \<open>The realtime session client (\<^verbatim>\<open>frontend/src/services/websocket.ts\<close>)\<close>

text \<open>
  The class \<^verbatim>\<open>WebSocketService\<close> is embedded as a record of its private fields, extended
  by the objects it allocates and observes: the transports it has created
  (\<^verbatim>\<open>new WebSocket\<close>), its promises, its timers (\<^verbatim>\<open>setTimeout\<close>), its heartbeat intervals
  (\<^verbatim>\<open>setInterval\<close>), the log of subscriber invocations and the \<^verbatim>\<open>console.error\<close> channel.
  Object references are indices into these stores. Every method and every event handler of
  the source is a function on this state. The debug traces written with \<^verbatim>\<open>console.log\<close> are
  not part of the state.
\<close>

subsection \<open>JavaScript values\<close>

datatype jsval =
    JUndefined
  | JNull
  | JBool bool
  | JNum int
  | JStr string
  | JArr "jsval list"
  | JObj "(string \<times> jsval) list"

text \<open>How a statement or a call completes: normally, or by throwing.\<close>

datatype completion = Returned | Thrown

text \<open>
  Property read \<^verbatim>\<open>data.k\<close>: a \<^verbatim>\<open>TypeError\<close> (\<open>None\<close>) on \<^verbatim>\<open>null\<close> and \<^verbatim>\<open>undefined\<close>, the
  property's value on an object, \<^verbatim>\<open>undefined\<close> where the property is missing and on every
  other primitive (none of the names read by the source is a property of a string, number,
  boolean or array). An object is the list of its properties in order; a property name
  occurs once in it.
\<close>

fun get_prop :: "jsval \<Rightarrow> string \<Rightarrow> jsval option" where
  "get_prop JUndefined k = None"
| "get_prop JNull k = None"
| "get_prop (JObj fs) k = Some (case map_of fs k of None \<Rightarrow> JUndefined | Some v \<Rightarrow> v)"
| "get_prop (JBool b) k = Some JUndefined"
| "get_prop (JNum n) k = Some JUndefined"
| "get_prop (JStr t) k = Some JUndefined"
| "get_prop (JArr vs) k = Some JUndefined"

text \<open>
  A wire frame is the text \<^verbatim>\<open>JSON.stringify\<close> produces for an object literal; it is kept as
  the ordered list of the properties that are written. \<^verbatim>\<open>JSON.stringify\<close> leaves out a
  property whose value is \<^verbatim>\<open>undefined\<close>.
\<close>

type_synonym frame = "(string \<times> jsval) list"

definition JSON_stringify :: "(string \<times> jsval) list \<Rightarrow> frame" where
  "JSON_stringify fs = filter (\<lambda>kv. snd kv \<noteq> JUndefined) fs"

text \<open>The outcome of \<^verbatim>\<open>JSON.parse(event.data)\<close>: a \<^verbatim>\<open>SyntaxError\<close> or the parsed value.\<close>

datatype parse_result = SyntaxError | Value jsval

subsection \<open>Transports, promises, timers\<close>

datatype readyState = CONNECTING | OPEN | CLOSING | CLOSED

text \<open>
  Which closure is installed as \<^verbatim>\<open>onmessage\<close>: the one assigned in \<^verbatim>\<open>connect\<close> or the one
  assigned in \<^verbatim>\<open>startHeartbeat\<close>.
\<close>

datatype msg_handler = ConnectHandler | HeartbeatHandler

text \<open>
  A transport created by \<^verbatim>\<open>connect\<close>. \<open>ws_room\<close> and \<open>ws_promise\<close> are what the closures
  assigned to \<^verbatim>\<open>onopen\<close>, \<^verbatim>\<open>onclose\<close> and \<^verbatim>\<open>onerror\<close> capture: the \<^verbatim>\<open>roomName\<close> argument
  and the \<^verbatim>\<open>resolve\<close>/\<^verbatim>\<open>reject\<close> pair of the promise under construction.
\<close>

record websocket =
  url :: string
  ws_state :: readyState
  ws_room :: string
  ws_promise :: nat
  onmessage :: msg_handler
  sent :: "frame list"
  close_calls :: "(nat \<times> string) list"

datatype promise_state = Pending | Resolved nat | Rejected

datatype timer_status = Scheduled | Fired | Cleared

text \<open>A \<^verbatim>\<open>setTimeout\<close> entry of \<^verbatim>\<open>attemptReconnect\<close>: its delay and the room its callback connects to.\<close>

record timer =
  delay :: nat
  target :: string
  status :: timer_status

text \<open>A subscriber callback is a function reference; \<^verbatim>\<open>indexOf\<close> compares references.\<close>

type_synonym callback = nat

subsection \<open>The service\<close>

record WebSocketService =
  socket :: "nat option"
  reconnectAttempts :: nat
  reconnectTimeout :: "nat option"
  heartbeatInterval :: "nat option"
  lastHeartbeat :: nat
  messageCallbacks :: "callback list"
  reactionCallbacks :: "callback list"
  userStatusCallbacks :: "callback list"
  notificationCallbacks :: "callback list"
  messageEditedCallbacks :: "callback list"
  messageDeletedCallbacks :: "callback list"
  readReceiptCallbacks :: "callback list"
  connectionPromise :: "nat option"

record state = WebSocketService +
  sockets :: "websocket list"
  promises :: "promise_state list"
  timers :: "timer list"
  intervals :: "bool list"
  invoked :: "(callback \<times> jsval) list"
  console_errors :: "string list"
  location_protocol :: string
  location_host :: string

definition maxReconnectAttempts :: nat where
  "maxReconnectAttempts = 5"

definition reconnectDelay :: nat where
  "reconnectDelay = 1000"

text \<open>The freshly constructed singleton, on a page with the given protocol and host.\<close>

definition init :: "string \<Rightarrow> string \<Rightarrow> nat \<Rightarrow> state" where
  "init proto host now =
     \<lparr> socket = None, reconnectAttempts = 0, reconnectTimeout = None,
       heartbeatInterval = None, lastHeartbeat = now,
       messageCallbacks = [], reactionCallbacks = [], userStatusCallbacks = [],
       notificationCallbacks = [], messageEditedCallbacks = [],
       messageDeletedCallbacks = [], readReceiptCallbacks = [],
       connectionPromise = None,
       sockets = [], promises = [], timers = [], intervals = [], invoked = [],
       console_errors = [], location_protocol = proto, location_host = host \<rparr>"

subsection \<open>Platform operations\<close>

definition map_socket :: "nat \<Rightarrow> (websocket \<Rightarrow> websocket) \<Rightarrow> state \<Rightarrow> state" where
  "map_socket i f s =
     (if i < length (sockets s) then s\<lparr>sockets := (sockets s)[i := f (sockets s ! i)]\<rparr> else s)"

text \<open>\<^verbatim>\<open>this.socket && this.socket.readyState === WebSocket.OPEN\<close>\<close>

definition socket_open :: "state \<Rightarrow> bool" where
  "socket_open s =
     (case socket s of
        None \<Rightarrow> False
      | Some i \<Rightarrow> i < length (sockets s) \<and> ws_state (sockets s ! i) = OPEN)"

text \<open>\<^verbatim>\<open>socket.send(frame)\<close>\<close>

definition ws_send :: "nat \<Rightarrow> frame \<Rightarrow> state \<Rightarrow> state" where
  "ws_send i f s = map_socket i (\<lambda>w. w\<lparr>sent := sent w @ [f]\<rparr>) s"

text \<open>
  \<^verbatim>\<open>socket.close(code, reason)\<close>: the call is recorded; a transport that is connecting or
  open starts closing, one that is closing or closed is left as it is.
\<close>

definition ws_close :: "nat \<Rightarrow> nat \<Rightarrow> string \<Rightarrow> state \<Rightarrow> state" where
  "ws_close i code reason s =
     map_socket i (\<lambda>w. w\<lparr> close_calls := close_calls w @ [(code, reason)],
                          ws_state := (if ws_state w = CONNECTING \<or> ws_state w = OPEN
                                       then CLOSING else ws_state w) \<rparr>) s"

definition resolve :: "nat \<Rightarrow> nat \<Rightarrow> state \<Rightarrow> state" where
  "resolve p v s =
     (if p < length (promises s) \<and> promises s ! p = Pending
      then s\<lparr>promises := (promises s)[p := Resolved v]\<rparr> else s)"

definition reject :: "nat \<Rightarrow> state \<Rightarrow> state" where
  "reject p s =
     (if p < length (promises s) \<and> promises s ! p = Pending
      then s\<lparr>promises := (promises s)[p := Rejected]\<rparr> else s)"

definition clearTimeout :: "nat \<Rightarrow> state \<Rightarrow> state" where
  "clearTimeout t s =
     (if t < length (timers s) \<and> status (timers s ! t) = Scheduled
      then s\<lparr>timers := (timers s)[t := (timers s ! t)\<lparr>status := Cleared\<rparr>]\<rparr> else s)"

definition clearInterval :: "nat \<Rightarrow> state \<Rightarrow> state" where
  "clearInterval h s = s\<lparr>intervals := (intervals s)[h := False]\<rparr>"

definition console_error :: "string \<Rightarrow> state \<Rightarrow> state" where
  "console_error m s = s\<lparr>console_errors := console_errors s @ [m]\<rparr>"

text \<open>\<^verbatim>\<open>try { body } catch (e) { handler }\<close>\<close>

definition try_catch :: "state \<times> completion \<Rightarrow> (state \<Rightarrow> state) \<Rightarrow> state \<times> completion" where
  "try_catch r h = (case r of (s, Thrown) \<Rightarrow> (h s, Returned) | (s, Returned) \<Rightarrow> (s, Returned))"

subsection \<open>Heartbeat\<close>

text \<open>The interval callback of \<^verbatim>\<open>startHeartbeat\<close>: a ping, if and only if the transport is open.\<close>

definition heartbeat_tick :: "state \<Rightarrow> state" where
  "heartbeat_tick s =
     (if socket_open s
      then ws_send (the (socket s)) (JSON_stringify [(''type'', JStr ''ping'')]) s
      else s)"

text \<open>
  \<^verbatim>\<open>startHeartbeat\<close> creates the interval and then replaces the message handler of
  \<^verbatim>\<open>this.socket!\<close>; the assignment throws a \<^verbatim>\<open>TypeError\<close> when \<^verbatim>\<open>this.socket\<close> is null.
\<close>

definition startHeartbeat :: "state \<Rightarrow> state \<times> completion" where
  "startHeartbeat s =
     (let s1 = s\<lparr>intervals := intervals s @ [True],
                 heartbeatInterval := Some (length (intervals s))\<rparr>
      in case socket s1 of
           None \<Rightarrow> (s1, Thrown)
         | Some i \<Rightarrow> (map_socket i (\<lambda>w. w\<lparr>onmessage := HeartbeatHandler\<rparr>) s1, Returned))"

definition stopHeartbeat :: "state \<Rightarrow> state" where
  "stopHeartbeat s =
     (case heartbeatInterval s of
        None \<Rightarrow> s
      | Some h \<Rightarrow> (clearInterval h s)\<lparr>heartbeatInterval := None\<rparr>)"

subsection \<open>Reconnection\<close>

definition attemptReconnect :: "string \<Rightarrow> state \<Rightarrow> state" where
  "attemptReconnect roomName s =
     (if reconnectAttempts s < maxReconnectAttempts then
        let s1 = s\<lparr>reconnectAttempts := reconnectAttempts s + 1\<rparr>
        in s1\<lparr> timers := timers s1 @
                   [\<lparr>delay = reconnectDelay * reconnectAttempts s1,
                     target = roomName, status = Scheduled\<rparr>],
                reconnectTimeout := Some (length (timers s1)) \<rparr>
      else console_error ''Max reconnection attempts reached'' s)"

subsection \<open>Subscriber registry and dispatch\<close>

text \<open>
  \<^verbatim>\<open>callbacks.forEach(callback => callback(data))\<close>. What a subscriber does is outside the
  service; \<open>raises cb data\<close> says whether the call \<^verbatim>\<open>cb(data)\<close> throws. Every call is
  recorded in \<open>invoked\<close>. A throwing call ends the \<^verbatim>\<open>forEach\<close>: the source has no handler
  around the call.
\<close>

fun forEach :: "(callback \<Rightarrow> jsval \<Rightarrow> bool) \<Rightarrow> callback list \<Rightarrow> jsval \<Rightarrow> state
    \<Rightarrow> state \<times> completion" where
  "forEach raises [] data s = (s, Returned)"
| "forEach raises (cb # cbs) data s =
     (let s1 = s\<lparr>invoked := invoked s @ [(cb, data)]\<rparr>
      in if raises cb data then (s1, Thrown) else forEach raises cbs data s1)"

definition handleMessage :: "(callback \<Rightarrow> jsval \<Rightarrow> bool) \<Rightarrow> jsval \<Rightarrow> state
    \<Rightarrow> state \<times> completion" where
  "handleMessage raises data s =
     (case get_prop data ''type'' of
        None \<Rightarrow> (s, Thrown)
      | Some ty \<Rightarrow>
          if ty = JStr ''reaction'' then forEach raises (reactionCallbacks s) data s
          else if ty = JStr ''user_status'' then forEach raises (userStatusCallbacks s) data s
          else if ty = JStr ''notification'' then forEach raises (notificationCallbacks s) data s
          else if ty = JStr ''message_edited'' then forEach raises (messageEditedCallbacks s) data s
          else if ty = JStr ''message_deleted'' then forEach raises (messageDeletedCallbacks s) data s
          else if ty = JStr ''read_receipt'' then forEach raises (readReceiptCallbacks s) data s
          else forEach raises (messageCallbacks s) data s)"

definition onMessage :: "callback \<Rightarrow> state \<Rightarrow> state" where
  "onMessage cb s = s\<lparr>messageCallbacks := messageCallbacks s @ [cb]\<rparr>"

definition onReaction :: "callback \<Rightarrow> state \<Rightarrow> state" where
  "onReaction cb s = s\<lparr>reactionCallbacks := reactionCallbacks s @ [cb]\<rparr>"

definition onUserStatus :: "callback \<Rightarrow> state \<Rightarrow> state" where
  "onUserStatus cb s = s\<lparr>userStatusCallbacks := userStatusCallbacks s @ [cb]\<rparr>"

definition onNotification :: "callback \<Rightarrow> state \<Rightarrow> state" where
  "onNotification cb s = s\<lparr>notificationCallbacks := notificationCallbacks s @ [cb]\<rparr>"

definition onMessageEdited :: "callback \<Rightarrow> state \<Rightarrow> state" where
  "onMessageEdited cb s = s\<lparr>messageEditedCallbacks := messageEditedCallbacks s @ [cb]\<rparr>"

definition onMessageDeleted :: "callback \<Rightarrow> state \<Rightarrow> state" where
  "onMessageDeleted cb s = s\<lparr>messageDeletedCallbacks := messageDeletedCallbacks s @ [cb]\<rparr>"

definition onReadReceipt :: "callback \<Rightarrow> state \<Rightarrow> state" where
  "onReadReceipt cb s = s\<lparr>readReceiptCallbacks := readReceiptCallbacks s @ [cb]\<rparr>"

text \<open>\<^verbatim>\<open>Array.prototype.indexOf\<close>: the first index holding the reference, or \<open>-1\<close>.\<close>

fun indexOf_from :: "callback list \<Rightarrow> callback \<Rightarrow> int \<Rightarrow> int" where
  "indexOf_from [] cb i = - 1"
| "indexOf_from (x # xs) cb i = (if x = cb then i else indexOf_from xs cb (i + 1))"

definition indexOf :: "callback list \<Rightarrow> callback \<Rightarrow> int" where
  "indexOf xs cb = indexOf_from xs cb 0"

text \<open>\<^verbatim>\<open>callbacks.splice(index, 1)\<close>\<close>

definition splice1 :: "nat \<Rightarrow> callback list \<Rightarrow> callback list" where
  "splice1 i xs = take i xs @ drop (Suc i) xs"

text \<open>The tail of \<^verbatim>\<open>off\<close>, on the array the \<^verbatim>\<open>switch\<close> selected.\<close>

definition off_callbacks :: "callback option \<Rightarrow> callback list \<Rightarrow> callback list" where
  "off_callbacks callback callbacks =
     (case callback of
        Some cb \<Rightarrow>
          (let index = indexOf callbacks cb
           in if index > - 1 then splice1 (nat index) callbacks else callbacks)
      | None \<Rightarrow> [])"

text \<open>
  \<^verbatim>\<open>off\<close> edits the selected array in place; for any other event name the array is a local
  empty one and nothing changes.
\<close>

definition off :: "string \<Rightarrow> callback option \<Rightarrow> state \<Rightarrow> state" where
  "off event callback s =
     (if event = ''message'' then
        s\<lparr>messageCallbacks := off_callbacks callback (messageCallbacks s)\<rparr>
      else if event = ''reaction'' then
        s\<lparr>reactionCallbacks := off_callbacks callback (reactionCallbacks s)\<rparr>
      else if event = ''user_status'' then
        s\<lparr>userStatusCallbacks := off_callbacks callback (userStatusCallbacks s)\<rparr>
      else if event = ''notification'' then
        s\<lparr>notificationCallbacks := off_callbacks callback (notificationCallbacks s)\<rparr>
      else if event = ''message_edited'' then
        s\<lparr>messageEditedCallbacks := off_callbacks callback (messageEditedCallbacks s)\<rparr>
      else if event = ''message_deleted'' then
        s\<lparr>messageDeletedCallbacks := off_callbacks callback (messageDeletedCallbacks s)\<rparr>
      else if event = ''read_receipt'' then
        s\<lparr>readReceiptCallbacks := off_callbacks callback (readReceiptCallbacks s)\<rparr>
      else s)"

subsection \<open>Message handlers\<close>

text \<open>
  The handler assigned in \<^verbatim>\<open>connect\<close>. Inside the \<^verbatim>\<open>try\<close>: the parse, the read of
  \<^verbatim>\<open>data.type\<close> for the trace, and \<^verbatim>\<open>handleMessage\<close>.
\<close>

definition onmessage_connect :: "(callback \<Rightarrow> jsval \<Rightarrow> bool) \<Rightarrow> nat \<Rightarrow> parse_result
    \<Rightarrow> state \<Rightarrow> state \<times> completion" where
  "onmessage_connect raises now r s =
     (let s1 = s\<lparr>lastHeartbeat := now\<rparr>
      in try_catch
           (case r of
              SyntaxError \<Rightarrow> (s1, Thrown)
            | Value data \<Rightarrow>
                (case get_prop data ''type'' of
                   None \<Rightarrow> (s1, Thrown)
                 | Some ty \<Rightarrow> handleMessage raises data s1))
           (console_error ''[WebSocket Debug] Failed to parse WebSocket message:''))"

text \<open>The handler assigned in \<^verbatim>\<open>startHeartbeat\<close>: a \<^verbatim>\<open>pong\<close> returns before the dispatch.\<close>

definition onmessage_heartbeat :: "(callback \<Rightarrow> jsval \<Rightarrow> bool) \<Rightarrow> nat \<Rightarrow> parse_result
    \<Rightarrow> state \<Rightarrow> state \<times> completion" where
  "onmessage_heartbeat raises now r s =
     (let s1 = s\<lparr>lastHeartbeat := now\<rparr>
      in try_catch
           (case r of
              SyntaxError \<Rightarrow> (s1, Thrown)
            | Value data \<Rightarrow>
                (case get_prop data ''type'' of
                   None \<Rightarrow> (s1, Thrown)
                 | Some ty \<Rightarrow>
                     if ty = JStr ''pong'' then (s1, Returned)
                     else handleMessage raises data s1))
           (console_error ''Failed to parse WebSocket message:''))"

subsection \<open>Connection lifecycle\<close>

text \<open>The handlers \<^verbatim>\<open>connect\<close> assigns, as functions of what their closures capture.\<close>

definition onopen :: "nat \<Rightarrow> state \<Rightarrow> state \<times> completion" where
  "onopen p s =
     (case startHeartbeat (s\<lparr>reconnectAttempts := 0\<rparr>) of
        (s1, Thrown) \<Rightarrow> (s1, Thrown)
      | (s1, Returned) \<Rightarrow> (resolve p (the (socket s1)) s1, Returned))"

definition onclose :: "string \<Rightarrow> nat \<Rightarrow> state \<Rightarrow> state" where
  "onclose roomName code s =
     (let s1 = (stopHeartbeat s)\<lparr>connectionPromise := None\<rparr>
      in if code \<noteq> 1000 then attemptReconnect roomName s1 else s1)"

definition onerror :: "string \<Rightarrow> nat \<Rightarrow> state \<Rightarrow> state" where
  "onerror roomName p s =
     (let s1 = console_error ''[WebSocket Debug] WebSocket connection error:'' s
      in attemptReconnect roomName (reject p (s1\<lparr>connectionPromise := None\<rparr>)))"

definition wsUrl :: "state \<Rightarrow> string \<Rightarrow> string" where
  "wsUrl s roomName =
     (if location_protocol s = ''https:'' then ''wss:'' else ''ws:'')
       @ ''//'' @ location_host s @ ''/ws/chat/'' @ roomName @ ''/''"

text \<open>
  \<^verbatim>\<open>connect\<close> returns the promise. The executor of \<^verbatim>\<open>new Promise\<close> runs before the
  assignment to \<^verbatim>\<open>this.connectionPromise\<close>.
\<close>

definition connect :: "string \<Rightarrow> state \<Rightarrow> state \<times> nat" where
  "connect roomName s =
     (case connectionPromise s of
        Some p \<Rightarrow> (s, p)
      | None \<Rightarrow>
          (let p = length (promises s);
               s1 = s\<lparr>promises := promises s @ [Pending]\<rparr>;
               s2 = (if socket_open s1 then resolve p (the (socket s1)) s1
                     else s1\<lparr> sockets := sockets s1 @
                                 [\<lparr>url = wsUrl s1 roomName, ws_state = CONNECTING,
                                   ws_room = roomName, ws_promise = p,
                                   onmessage = ConnectHandler, sent = [],
                                   close_calls = []\<rparr>],
                               socket := Some (length (sockets s1)) \<rparr>)
           in (s2\<lparr>connectionPromise := Some p\<rparr>, p)))"

definition disconnect :: "state \<Rightarrow> state" where
  "disconnect s =
     (let s1 = stopHeartbeat s;
          s2 = (case reconnectTimeout s1 of
                  None \<Rightarrow> s1
                | Some t \<Rightarrow> (clearTimeout t s1)\<lparr>reconnectTimeout := None\<rparr>);
          s3 = (case socket s2 of
                  None \<Rightarrow> s2
                | Some i \<Rightarrow> (ws_close i 1000 ''Client disconnect'' s2)\<lparr>socket := None\<rparr>)
      in s3\<lparr>connectionPromise := None, reconnectAttempts := 0\<rparr>)"

subsection \<open>Outbound commands\<close>

text \<open>
  \<^verbatim>\<open>sendMessage(message: any)\<close> reads \<^verbatim>\<open>message.message\<close> and \<^verbatim>\<open>message.reply_to\<close> only
  when the transport is open; the read throws on \<^verbatim>\<open>null\<close> and \<^verbatim>\<open>undefined\<close>.
\<close>

definition sendMessage :: "jsval \<Rightarrow> state \<Rightarrow> state \<times> completion" where
  "sendMessage message s =
     (if socket_open s then
        (case (get_prop message ''message'', get_prop message ''reply_to'') of
           (Some m, Some r) \<Rightarrow>
             (ws_send (the (socket s))
                (JSON_stringify [(''message'', m), (''reply_to'', r)]) s, Returned)
         | _ \<Rightarrow> (s, Thrown))
      else (console_error ''[WebSocket Debug] Cannot send message: socket not open or null'' s,
            Returned))"

definition sendReaction :: "int \<Rightarrow> string \<Rightarrow> state \<Rightarrow> state" where
  "sendReaction messageId emoji s =
     (if socket_open s then
        ws_send (the (socket s))
          (JSON_stringify [(''type'', JStr ''reaction''), (''message_id'', JNum messageId),
                           (''emoji'', JStr emoji)]) s
      else s)"

definition sendReadReceipt :: "int \<Rightarrow> state \<Rightarrow> state" where
  "sendReadReceipt messageId s =
     (if socket_open s then
        ws_send (the (socket s))
          (JSON_stringify [(''type'', JStr ''read_receipt''), (''message_id'', JNum messageId)]) s
      else s)"

definition editMessage :: "int \<Rightarrow> string \<Rightarrow> state \<Rightarrow> state" where
  "editMessage messageId content s =
     (if socket_open s then
        ws_send (the (socket s))
          (JSON_stringify [(''type'', JStr ''edit_message''), (''message_id'', JNum messageId),
                           (''content'', JStr content)]) s
      else s)"

definition deleteMessage :: "int \<Rightarrow> state \<Rightarrow> state" where
  "deleteMessage messageId s =
     (if socket_open s then
        ws_send (the (socket s))
          (JSON_stringify [(''type'', JStr ''delete_message''), (''message_id'', JNum messageId)]) s
      else s)"

text \<open>\<^verbatim>\<open>replyToId?: number\<close> is \<^verbatim>\<open>undefined\<close> when the argument is left out.\<close>

definition replyToMessage :: "int \<Rightarrow> string \<Rightarrow> int option \<Rightarrow> state \<Rightarrow> state" where
  "replyToMessage messageId content replyToId s =
     (if socket_open s then
        ws_send (the (socket s))
          (JSON_stringify [(''message'', JStr content),
                           (''reply_to'', case replyToId of None \<Rightarrow> JUndefined
                                          | Some n \<Rightarrow> JNum n)]) s
      else s)"

subsection \<open>Events\<close>

text \<open>
  What happens to the service, in order: calls of its public methods, and the events the
  platform delivers to the handlers of a transport, a timer or an interval. An open event
  reaches a connecting transport and makes it open; a close event reaches a transport that
  is not closed and makes it closed; a message reaches an open transport and runs the
  handler installed on it; a timer fires once, if it was not cleared.
\<close>

datatype event =
    Connect string
  | Disconnect
  | SocketOpen nat
  | SocketClose nat nat
  | SocketError nat
  | SocketMessage nat parse_result nat
  | TimerFire nat
  | IntervalTick nat

definition step :: "(callback \<Rightarrow> jsval \<Rightarrow> bool) \<Rightarrow> state \<Rightarrow> event \<Rightarrow> state" where
  "step raises s e =
     (case e of
        Connect roomName \<Rightarrow> fst (connect roomName s)
      | Disconnect \<Rightarrow> disconnect s
      | SocketOpen i \<Rightarrow>
          (if i < length (sockets s) \<and> ws_state (sockets s ! i) = CONNECTING
           then fst (onopen (ws_promise (sockets s ! i))
                       (map_socket i (\<lambda>w. w\<lparr>ws_state := OPEN\<rparr>) s))
           else s)
      | SocketClose i code \<Rightarrow>
          (if i < length (sockets s) \<and> ws_state (sockets s ! i) \<noteq> CLOSED
           then onclose (ws_room (sockets s ! i)) code
                  (map_socket i (\<lambda>w. w\<lparr>ws_state := CLOSED\<rparr>) s)
           else s)
      | SocketError i \<Rightarrow>
          (if i < length (sockets s)
           then onerror (ws_room (sockets s ! i)) (ws_promise (sockets s ! i)) s
           else s)
      | SocketMessage i r now \<Rightarrow>
          (if i < length (sockets s) \<and> ws_state (sockets s ! i) = OPEN
           then (case onmessage (sockets s ! i) of
                   ConnectHandler \<Rightarrow> fst (onmessage_connect raises now r s)
                 | HeartbeatHandler \<Rightarrow> fst (onmessage_heartbeat raises now r s))
           else s)
      | TimerFire t \<Rightarrow>
          (if t < length (timers s) \<and> status (timers s ! t) = Scheduled
           then fst (connect (target (timers s ! t))
                       (s\<lparr>timers := (timers s)[t := (timers s ! t)\<lparr>status := Fired\<rparr>]\<rparr>))
           else s)
      | IntervalTick h \<Rightarrow>
          (if h < length (intervals s) \<and> intervals s ! h then heartbeat_tick s else s))"

definition run :: "(callback \<Rightarrow> jsval \<Rightarrow> bool) \<Rightarrow> state \<Rightarrow> event list \<Rightarrow> state" where
  "run raises s es = foldl (step raises) s es"

text \<open>The transports that are connecting or open.\<close>

definition live_transports :: "state \<Rightarrow> websocket list" where
  "live_transports s =
     filter (\<lambda>w. ws_state w = CONNECTING \<or> ws_state w = OPEN) (sockets s)"

section \<open>Properties\<close>

subsection \<open>Reconnection back-off\<close>

lemma stopHeartbeat_fields [simp]:
  "timers (stopHeartbeat s) = timers s"
  "reconnectAttempts (stopHeartbeat s) = reconnectAttempts s"
  "sockets (stopHeartbeat s) = sockets s"
  "promises (stopHeartbeat s) = promises s"
  "socket (stopHeartbeat s) = socket s"
  "reconnectTimeout (stopHeartbeat s) = reconnectTimeout s"
  "connectionPromise (stopHeartbeat s) = connectionPromise s"
  "invoked (stopHeartbeat s) = invoked s"
  "console_errors (stopHeartbeat s) = console_errors s"
  "heartbeatInterval (stopHeartbeat s) = None"
  by (simp_all add: stopHeartbeat_def clearInterval_def split: option.split)

lemma attemptReconnect_continue:
  "reconnectAttempts s < 5 \<Longrightarrow>
     attemptReconnect room s =
       s\<lparr> reconnectAttempts := reconnectAttempts s + 1,
           timers := timers s @
             [\<lparr>delay = 1000 * (reconnectAttempts s + 1), target = room, status = Scheduled\<rparr>],
           reconnectTimeout := Some (length (timers s)) \<rparr>"
  by (simp add: attemptReconnect_def maxReconnectAttempts_def reconnectDelay_def Let_def)

lemma attemptReconnect_stop:
  "5 \<le> reconnectAttempts s \<Longrightarrow>
     attemptReconnect room s = console_error ''Max reconnection attempts reached'' s"
  by (simp add: attemptReconnect_def maxReconnectAttempts_def)

lemma onclose_exhausted:
  "5 \<le> reconnectAttempts s \<Longrightarrow> timers (onclose room c s) = timers s"
  by (simp add: onclose_def Let_def attemptReconnect_stop console_error_def)

lemma abnormal_closes:
  "\<forall>c \<in> set codes. c \<noteq> 1000 \<Longrightarrow> reconnectAttempts s + length codes \<le> 5 \<Longrightarrow>
     timers (foldl (\<lambda>s c. onclose room c s) s codes) =
       timers s @ map (\<lambda>k. \<lparr>delay = 1000 * (reconnectAttempts s + k), target = room,
                             status = Scheduled\<rparr>) [1..<length codes + 1]
     \<and> reconnectAttempts (foldl (\<lambda>s c. onclose room c s) s codes) =
         reconnectAttempts s + length codes"
proof (induction codes rule: rev_induct)
  case Nil
  show ?case by simp
next
  case (snoc c cs)
  let ?t = "foldl (\<lambda>s c. onclose room c s) s cs"
  from snoc have ih: "timers ?t = timers s @ map (\<lambda>k. \<lparr>delay = 1000 * (reconnectAttempts s + k), target = room,
                             status = Scheduled\<rparr>) [1..<length cs + 1]"
    and ra: "reconnectAttempts ?t = reconnectAttempts s + length cs"
    by simp_all
  from snoc.prems have c: "c \<noteq> 1000" and lt: "reconnectAttempts s + length cs < 5" by simp_all
  have "onclose room c ?t = attemptReconnect room ((stopHeartbeat ?t)\<lparr>connectionPromise := None\<rparr>)"
    using c by (simp add: onclose_def)
  also have "\<dots> = ((stopHeartbeat ?t)\<lparr>connectionPromise := None\<rparr>)
       \<lparr> reconnectAttempts := reconnectAttempts ?t + 1,
           timers := timers ?t @
             [\<lparr>delay = 1000 * (reconnectAttempts ?t + 1), target = room, status = Scheduled\<rparr>],
           reconnectTimeout := Some (length (timers ?t)) \<rparr>"
    using lt ra by (simp add: attemptReconnect_continue)
  finally have step: "onclose room c ?t = \<dots>" .
  show ?case
    by (simp add: step ih ra)
qed

text \<open>
  C1. With \<open>n - 1\<close> attempts made so far (\<open>n\<close> between 1 and 5), the reconnection path
  raises the counter to \<open>n\<close> and schedules one timer with delay \<open>1000 * n\<close> ms for the same
  room: the test \<^verbatim>\<open>reconnectAttempts < maxReconnectAttempts\<close> is made on the counter before
  the increment, the delay uses the counter after it. With 4 attempts made a timer is still
  scheduled, with 5 none is. Five consecutive abnormal closes (any codes other than 1000),
  starting from a counter of zero, schedule the delays 1000, 2000, 3000, 4000, 5000, and
  any further close schedules nothing.
\<close>

theorem reconnect_linear_backoff:
  "(\<forall>n \<in> {1..5}. reconnectAttempts s + 1 = n \<longrightarrow>
       timers (attemptReconnect room s) =
         timers s @ [\<lparr>delay = 1000 * n, target = room, status = Scheduled\<rparr>]
       \<and> reconnectAttempts (attemptReconnect room s) = n
       \<and> reconnectTimeout (attemptReconnect room s) = Some (length (timers s)))
   \<and> (reconnectAttempts s = 4 \<longrightarrow>
         length (timers (attemptReconnect room s)) = length (timers s) + 1)
   \<and> (5 \<le> reconnectAttempts s \<longrightarrow>
         timers (attemptReconnect room s) = timers s
         \<and> reconnectAttempts (attemptReconnect room s) = reconnectAttempts s)
   \<and> (reconnectAttempts s = 0 \<and> length codes = 5 \<and> (\<forall>c \<in> set codes. c \<noteq> 1000) \<longrightarrow>
         map delay (drop (length (timers s))
                      (timers (foldl (\<lambda>s c. onclose room c s) s codes)))
           = [1000, 2000, 3000, 4000, 5000]
         \<and> (\<forall>c. timers (onclose room c (foldl (\<lambda>s c. onclose room c s) s codes))
                = timers (foldl (\<lambda>s c. onclose room c s) s codes)))"
proof (intro conjI ballI impI allI)
  fix n assume "n \<in> {1..5}" and n: "reconnectAttempts s + 1 = n"
  then have lt: "reconnectAttempts s < 5" by auto
  show "timers (attemptReconnect room s) =
         timers s @ [\<lparr>delay = 1000 * n, target = room, status = Scheduled\<rparr>]"
    using n by (simp add: attemptReconnect_continue [OF lt])
  show "reconnectAttempts (attemptReconnect room s) = n"
    using n by (simp add: attemptReconnect_continue [OF lt])
  show "reconnectTimeout (attemptReconnect room s) = Some (length (timers s))"
    by (simp add: attemptReconnect_continue [OF lt])
next
  assume "reconnectAttempts s = 4"
  then have lt: "reconnectAttempts s < 5" by simp
  show "length (timers (attemptReconnect room s)) = length (timers s) + 1"
    by (simp add: attemptReconnect_continue [OF lt])
next
  assume ge: "5 \<le> reconnectAttempts s"
  show "timers (attemptReconnect room s) = timers s"
    by (simp add: attemptReconnect_stop [OF ge] console_error_def)
  show "reconnectAttempts (attemptReconnect room s) = reconnectAttempts s"
    by (simp add: attemptReconnect_stop [OF ge] console_error_def)
next
  let ?t = "foldl (\<lambda>s c. onclose room c s) s codes"
  assume a: "reconnectAttempts s = 0 \<and> length codes = 5 \<and> (\<forall>c \<in> set codes. c \<noteq> 1000)"
  then have five: "timers ?t = timers s @ map (\<lambda>k. \<lparr>delay = 1000 * (reconnectAttempts s + k),
        target = room, status = Scheduled\<rparr>) [1..<length codes + 1]"
    and ra: "reconnectAttempts ?t = reconnectAttempts s + length codes"
    using abnormal_closes [of codes s room] by simp_all
  have upt: "[Suc 0..<6] = [1, 2, 3, 4, 5]"
    by (simp add: upt_rec)
  show "map delay (drop (length (timers s)) (timers ?t)) = [1000, 2000, 3000, 4000, 5000]"
    using a by (simp add: five upt)
  fix c
  have "5 \<le> reconnectAttempts ?t"
    using a ra by simp
  then show "timers (onclose room c ?t) = timers ?t"
    by (rule onclose_exhausted)
qed

theorem reconnect_linear_backoff_witness:
  "timers (attemptReconnect ''r'' (init ''https:'' ''h'' 0))
     = [\<lparr>delay = 1000, target = ''r'', status = Scheduled\<rparr>]
   \<and> map delay (timers (foldl (\<lambda>s c. onclose ''r'' c s) (init ''https:'' ''h'' 0)
                           [1006, 1006, 1001, 1011, 1006]))
       = [1000, 2000, 3000, 4000, 5000]
   \<and> timers (onclose ''r'' 1006 (foldl (\<lambda>s c. onclose ''r'' c s) (init ''https:'' ''h'' 0)
                                    [1006, 1006, 1001, 1011, 1006]))
       = timers (foldl (\<lambda>s c. onclose ''r'' c s) (init ''https:'' ''h'' 0)
                   [1006, 1006, 1001, 1011, 1006])"
proof -
  let ?s = "init ''https:'' ''h'' 0"
  let ?codes = "[1006, 1006, 1001, 1011, 1006] :: nat list"
  note inst = reconnect_linear_backoff [of ?s "''r''" ?codes]
  have s0: "reconnectAttempts ?s = 0" "timers ?s = []"
    by (simp_all add: init_def)
  have one: "(1::nat) \<in> {1..5}" by simp
  from bspec [OF inst [THEN conjunct1] one]
  have a: "timers (attemptReconnect ''r'' ?s)
     = [\<lparr>delay = 1000, target = ''r'', status = Scheduled\<rparr>]"
    by (simp add: s0)
  from inst [THEN conjunct2, THEN conjunct2, THEN conjunct2]
  have b: "map delay (drop (length (timers ?s))
                      (timers (foldl (\<lambda>s c. onclose ''r'' c s) ?s ?codes)))
           = [1000, 2000, 3000, 4000, 5000]
         \<and> (\<forall>c. timers (onclose ''r'' c (foldl (\<lambda>s c. onclose ''r'' c s) ?s ?codes))
                = timers (foldl (\<lambda>s c. onclose ''r'' c s) ?s ?codes))"
    by (simp add: s0)
  from a b show ?thesis
    by (simp add: s0)
qed

subsection \<open>Coalesced connection attempts\<close>

lemma connect_pending:
  "connectionPromise s = Some p \<Longrightarrow> connect room s = (s, p)"
  by (simp add: connect_def)

lemma connect_sets_promise:
  "connectionPromise s = None \<Longrightarrow> connect room s = (s', p) \<Longrightarrow> connectionPromise s' = Some p"
  by (auto simp add: connect_def Let_def)

text \<open>
  While the field \<^verbatim>\<open>connectionPromise\<close> is set, \<^verbatim>\<open>connect(r2)\<close> returns that promise and
  leaves the whole state as it is, whatever \<open>r2\<close> is: in particular, right after
  \<^verbatim>\<open>connect(r1)\<close> created the promise, \<^verbatim>\<open>connect(r2)\<close> returns the promise of \<open>r1\<close>, and the
  transport, its URL and the room its handlers reconnect to are those of \<open>r1\<close>. This is
  about the field, which the close and error handlers of any transport clear; it does not
  say that the field is set whenever an attempt is in flight.
\<close>

lemma connect_held_promise_ignores_room:
  "(connectionPromise s = Some p \<longrightarrow> connect r2 s = (s, p))
   \<and> (connectionPromise s0 = None \<and> connect r1 s0 = (s1, p1) \<longrightarrow>
         connect r2 s1 = (s1, p1))"
  using connect_pending connect_sets_promise by blast

lemma connect_held_promise_ignores_room_example:
  "connect ''b'' (fst (connect ''a'' (init ''https:'' ''h'' 0)))
     = connect ''a'' (init ''https:'' ''h'' 0)
   \<and> map url (sockets (fst (connect ''b'' (fst (connect ''a'' (init ''https:'' ''h'' 0))))))
       = [''wss://h/ws/chat/a/'']
   \<and> map ws_room (sockets (fst (connect ''b'' (fst (connect ''a'' (init ''https:'' ''h'' 0))))))
       = [''a'']"
proof -
  let ?i = "init ''https:'' ''h'' 0"
  obtain s1 p1 where c: "connect ''a'' ?i = (s1, p1)"
    by (cases "connect ''a'' ?i")
  have n: "connectionPromise ?i = None"
    by (simp add: init_def)
  from connect_held_promise_ignores_room [of s1 p1 "''b''" ?i "''a''" s1 p1] n c
  have "connect ''b'' s1 = (s1, p1)"
    by simp
  moreover have "map url (sockets s1) = [''wss://h/ws/chat/a/'']" "map ws_room (sockets s1) = [''a'']"
    using c by (auto simp add: connect_def init_def socket_open_def wsUrl_def Let_def)
  ultimately show ?thesis
    using c by simp
qed

subsection \<open>Sending while the transport is not open\<close>

text \<open>
  C6. When \<^verbatim>\<open>this.socket\<close> is null or its \<^verbatim>\<open>readyState\<close> is not \<^verbatim>\<open>OPEN\<close>, each of the six
  command methods returns normally and writes nothing to any transport: \<^verbatim>\<open>sendMessage\<close>
  only reports on \<^verbatim>\<open>console.error\<close>, the other five leave the state unchanged. Nothing is
  queued: no field of the state holds the command afterwards.
\<close>

theorem send_while_not_open_dropped:
  "\<not> socket_open s \<longrightarrow>
     sendMessage message s =
       (console_error ''[WebSocket Debug] Cannot send message: socket not open or null'' s,
        Returned)
     \<and> sockets (fst (sendMessage message s)) = sockets s
     \<and> sendReaction messageId emoji s = s
     \<and> sendReadReceipt messageId s = s
     \<and> editMessage messageId content s = s
     \<and> deleteMessage messageId s = s
     \<and> replyToMessage messageId content replyToId s = s"
  by (simp add: sendMessage_def sendReaction_def sendReadReceipt_def editMessage_def
      deleteMessage_def replyToMessage_def console_error_def)

theorem send_while_not_open_dropped_witness:
  "\<not> socket_open (fst (connect ''r'' (init ''https:'' ''h'' 0)))
   \<and> map sent (sockets (fst (sendMessage (JObj [(''message'', JStr ''hi'')])
                                (fst (connect ''r'' (init ''https:'' ''h'' 0)))))) = [[]]
   \<and> snd (sendMessage (JObj [(''message'', JStr ''hi'')])
             (fst (connect ''r'' (init ''https:'' ''h'' 0)))) = Returned
   \<and> sendReaction 5 ''x'' (fst (connect ''r'' (init ''https:'' ''h'' 0)))
       = fst (connect ''r'' (init ''https:'' ''h'' 0))
   \<and> sendReaction 5 ''x'' (init ''https:'' ''h'' 0) = init ''https:'' ''h'' 0"
proof -
  let ?i = "init ''https:'' ''h'' 0"
  let ?s = "fst (connect ''r'' ?i)"
  have a: "\<not> socket_open ?i"
    by (simp add: socket_open_def init_def)
  have b: "\<not> socket_open ?s"
    by (simp add: socket_open_def init_def connect_def Let_def)
  have c: "map sent (sockets ?s) = [[]]"
    by (simp add: socket_open_def init_def connect_def Let_def)
  from a b c
    send_while_not_open_dropped [of ?s "JObj [(''message'', JStr ''hi'')]" 5 "''x''" "''c''" None]
    send_while_not_open_dropped [of ?i "JObj [(''message'', JStr ''hi'')]" 5 "''x''" "''c''" None]
  show ?thesis
    by (simp add: console_error_def)
qed

subsection \<open>Malformed inbound frames\<close>

text \<open>
  C7. A frame whose payload does not parse is reported on \<^verbatim>\<open>console.error\<close> and dropped, by
  the handler assigned in \<^verbatim>\<open>connect\<close> and by the one assigned in \<^verbatim>\<open>startHeartbeat\<close>: the
  only changes are the last-seen timestamp and one diagnostic entry, no subscriber is
  invoked, no transport changes. Neither handler ever completes by throwing, on any frame.
\<close>

theorem malformed_frame_dropped:
  "onmessage_connect raises now SyntaxError s =
     (console_error ''[WebSocket Debug] Failed to parse WebSocket message:''
        (s\<lparr>lastHeartbeat := now\<rparr>), Returned)
   \<and> onmessage_heartbeat raises now SyntaxError s =
     (console_error ''Failed to parse WebSocket message:'' (s\<lparr>lastHeartbeat := now\<rparr>), Returned)
   \<and> invoked (fst (onmessage_connect raises now SyntaxError s)) = invoked s
   \<and> invoked (fst (onmessage_heartbeat raises now SyntaxError s)) = invoked s
   \<and> sockets (fst (onmessage_connect raises now SyntaxError s)) = sockets s
   \<and> sockets (fst (onmessage_heartbeat raises now SyntaxError s)) = sockets s
   \<and> length (console_errors (fst (onmessage_connect raises now SyntaxError s)))
       = length (console_errors s) + 1
   \<and> length (console_errors (fst (onmessage_heartbeat raises now SyntaxError s)))
       = length (console_errors s) + 1
   \<and> snd (onmessage_connect raises now r s) = Returned
   \<and> snd (onmessage_heartbeat raises now r s) = Returned"
  by (simp add: onmessage_connect_def onmessage_heartbeat_def try_catch_def console_error_def
      Let_def split: prod.split completion.split)

subsection \<open>Subscriber registry\<close>

lemma indexOf_from_absent:
  "cb \<notin> set xs \<Longrightarrow> indexOf_from xs cb i = - 1"
  by (induction xs arbitrary: i) auto

lemma indexOf_from_present:
  "cb \<in> set xs \<Longrightarrow> 0 \<le> i \<Longrightarrow>
     i \<le> indexOf_from xs cb i
     \<and> splice1 (nat (indexOf_from xs cb i - i)) xs = remove1 cb xs"
proof (induction xs arbitrary: i)
  case Nil
  then show ?case by simp
next
  case (Cons x xs)
  show ?case
  proof (cases "x = cb")
    case True
    then show ?thesis by (simp add: splice1_def)
  next
    case False
    with Cons.prems have mem: "cb \<in> set xs" and i1: "0 \<le> i + 1" by simp_all
    from Cons.IH [OF mem i1]
    have le: "i + 1 \<le> indexOf_from xs cb (i + 1)"
      and sp: "splice1 (nat (indexOf_from xs cb (i + 1) - (i + 1))) xs = remove1 cb xs"
      by simp_all
    from le have "nat (indexOf_from xs cb (i + 1) - i)
        = Suc (nat (indexOf_from xs cb (i + 1) - (i + 1)))"
      by simp
    with False le sp show ?thesis
      by (simp add: splice1_def)
  qed
qed

lemma off_callbacks_Some:
  "off_callbacks (Some cb) cbs = remove1 cb cbs"
proof (cases "cb \<in> set cbs")
  case True
  from indexOf_from_present [OF True, of 0] show ?thesis
    by (simp add: off_callbacks_def indexOf_def Let_def)
next
  case False
  then show ?thesis
    by (simp add: off_callbacks_def indexOf_def indexOf_from_absent remove1_idem)
qed

lemma forEach_no_throw:
  "\<forall>cb \<in> set cbs. \<not> raises cb data \<Longrightarrow>
     forEach raises cbs data s = (s\<lparr>invoked := invoked s @ map (\<lambda>cb. (cb, data)) cbs\<rparr>, Returned)"
  by (induction cbs arbitrary: s) (simp_all add: Let_def)

text \<open>
  C9. \<^verbatim>\<open>off(kind, callback)\<close> removes the first entry of that kind's list that is the given
  callback (the match of \<^verbatim>\<open>indexOf\<close>, on the function reference) and changes nothing else;
  \<^verbatim>\<open>off(kind)\<close> without a callback empties that list. Each \<^verbatim>\<open>on...\<close> method appends, so a
  callback may be listed twice. \<^verbatim>\<open>off\<close> after a single \<^verbatim>\<open>on\<close> leaves the list empty (in general:
  as it was before, when the callback was not listed), and a dispatch over the empty list
  invokes nothing. A callback listed twice is invoked twice by a dispatch (the callback
  returning normally).
\<close>

theorem off_removes_first_match:
  "off_callbacks (Some cb) cbs = remove1 cb cbs
   \<and> off_callbacks None cbs = []
   \<and> off ''message'' c s = s\<lparr>messageCallbacks := off_callbacks c (messageCallbacks s)\<rparr>
   \<and> off ''reaction'' c s = s\<lparr>reactionCallbacks := off_callbacks c (reactionCallbacks s)\<rparr>
   \<and> off ''user_status'' c s = s\<lparr>userStatusCallbacks := off_callbacks c (userStatusCallbacks s)\<rparr>
   \<and> off ''notification'' c s
       = s\<lparr>notificationCallbacks := off_callbacks c (notificationCallbacks s)\<rparr>
   \<and> off ''message_edited'' c s
       = s\<lparr>messageEditedCallbacks := off_callbacks c (messageEditedCallbacks s)\<rparr>
   \<and> off ''message_deleted'' c s
       = s\<lparr>messageDeletedCallbacks := off_callbacks c (messageDeletedCallbacks s)\<rparr>
   \<and> off ''read_receipt'' c s
       = s\<lparr>readReceiptCallbacks := off_callbacks c (readReceiptCallbacks s)\<rparr>
   \<and> onMessage cb s = s\<lparr>messageCallbacks := messageCallbacks s @ [cb]\<rparr>
   \<and> onReaction cb s = s\<lparr>reactionCallbacks := reactionCallbacks s @ [cb]\<rparr>
   \<and> onUserStatus cb s = s\<lparr>userStatusCallbacks := userStatusCallbacks s @ [cb]\<rparr>
   \<and> onNotification cb s = s\<lparr>notificationCallbacks := notificationCallbacks s @ [cb]\<rparr>
   \<and> onMessageEdited cb s = s\<lparr>messageEditedCallbacks := messageEditedCallbacks s @ [cb]\<rparr>
   \<and> onMessageDeleted cb s = s\<lparr>messageDeletedCallbacks := messageDeletedCallbacks s @ [cb]\<rparr>
   \<and> onReadReceipt cb s = s\<lparr>readReceiptCallbacks := readReceiptCallbacks s @ [cb]\<rparr>
   \<and> off_callbacks (Some cb) ([] @ [cb]) = []
   \<and> (cb \<notin> set cbs \<longrightarrow> off_callbacks (Some cb) (cbs @ [cb]) = cbs)
   \<and> forEach raises [] data s = (s, Returned)
   \<and> (\<not> raises cb data \<longrightarrow>
         invoked (fst (forEach raises ([] @ [cb] @ [cb]) data s))
           = invoked s @ [(cb, data), (cb, data)])"
  by (simp add: off_callbacks_Some off_def onMessage_def onReaction_def onUserStatus_def
      onNotification_def onMessageEdited_def onMessageDeleted_def onReadReceipt_def
      remove1_append Let_def)
    (simp add: off_callbacks_def)

theorem off_removes_first_match_witness:
  "reactionCallbacks (off ''reaction'' (Some 7) (onReaction 7 (init ''https:'' ''h'' 0))) = []
   \<and> handleMessage (\<lambda>cb d. False) (JObj [(''type'', JStr ''reaction'')])
        (off ''reaction'' (Some 7) (onReaction 7 (init ''https:'' ''h'' 0)))
       = (init ''https:'' ''h'' 0, Returned)
   \<and> messageCallbacks (off ''message'' (Some 7)
        (onMessage 8 (onMessage 7 (onMessage 8 (onMessage 7 (init ''https:'' ''h'' 0))))))
       = [8, 7, 8]
   \<and> messageCallbacks (off ''message'' None
        (onMessage 8 (onMessage 7 (init ''https:'' ''h'' 0)))) = []
   \<and> invoked (fst (handleMessage (\<lambda>cb d. False) (JObj [(''message'', JStr ''hi'')])
        (onMessage 7 (onMessage 7 (init ''https:'' ''h'' 0)))))
       = [(7, JObj [(''message'', JStr ''hi'')]), (7, JObj [(''message'', JStr ''hi'')])]"
proof -
  let ?i = "init ''https:'' ''h'' 0"
  let ?d = "JObj [(''message'', JStr ''hi'')]"
  note inst = off_removes_first_match [where cb = 7 and cbs = "[7, 8, 7, 8]"
      and raises = "\<lambda>cb d. False" and data = ?d and s = ?i]
  have notin: "(7::nat) \<notin> set []" by simp
  have nothrow: "\<not> (\<lambda>(cb::nat) (d::jsval). False) 7 ?d" by simp
  have a: "off_callbacks (Some 7) [7, 8, 7, 8] = [8, 7, 8]"
    using inst [THEN conjunct1] by simp
  have b: "invoked (fst (forEach (\<lambda>cb d. False) [7, 7] ?d ?i)) = [(7, ?d), (7, ?d)]"
    using inst nothrow by (simp add: init_def)
  have c: "off_callbacks (Some 7) [7] = []"
    using inst by simp
  show ?thesis
    using a b c
    by (simp add: off_def onReaction_def onMessage_def handleMessage_def init_def
        off_callbacks_def)
qed

subsection \<open>Outbound frames\<close>

text \<open>The state after \<^verbatim>\<open>connect("r")\<close> and the open event of its transport.\<close>

lemma opened_state:
  "run raises (init ''https:'' ''h'' 0) [Connect ''r'', SocketOpen 0] =
     \<lparr> socket = Some 0, reconnectAttempts = 0, reconnectTimeout = None,
       heartbeatInterval = Some 0, lastHeartbeat = 0,
       messageCallbacks = [], reactionCallbacks = [], userStatusCallbacks = [],
       notificationCallbacks = [], messageEditedCallbacks = [],
       messageDeletedCallbacks = [], readReceiptCallbacks = [],
       connectionPromise = Some 0,
       sockets = [\<lparr>url = ''wss://h/ws/chat/r/'', ws_state = OPEN, ws_room = ''r'',
                   ws_promise = 0, onmessage = HeartbeatHandler, sent = [],
                   close_calls = []\<rparr>],
       promises = [Resolved 0], timers = [], intervals = [True], invoked = [],
       console_errors = [], location_protocol = ''https:'', location_host = ''h'' \<rparr>"
  by (simp add: run_def step_def connect_def onopen_def init_def socket_open_def
      startHeartbeat_def map_socket_def resolve_def wsUrl_def Let_def)

text \<open>
  C8. On an open transport every command method makes exactly one \<^verbatim>\<open>send\<close>: one frame is
  appended to what that transport has sent and nothing else changes. \<^verbatim>\<open>sendMessage\<close> and
  \<^verbatim>\<open>replyToMessage\<close> write the object \<^verbatim>\<open>{message, reply_to}\<close>, which has no \<^verbatim>\<open>type\<close> property
  (\<^verbatim>\<open>JSON.stringify\<close> leaves out a property that is \<^verbatim>\<open>undefined\<close>); the other commands and the
  heartbeat ping write an object whose first property is \<^verbatim>\<open>type\<close>, with the values
  \<^verbatim>\<open>reaction\<close>, \<^verbatim>\<open>read_receipt\<close>, \<^verbatim>\<open>edit_message\<close>, \<^verbatim>\<open>delete_message\<close> and \<^verbatim>\<open>ping\<close>, followed by
  their fields.
\<close>

theorem outbound_frame_encoding:
  assumes "socket s = Some i" and "i < length (sockets s)" and "ws_state (sockets s ! i) = OPEN"
  shows
    "(\<forall>f. ws_send i f s =
          s\<lparr>sockets := (sockets s)[i := (sockets s ! i)\<lparr>sent := sent (sockets s ! i) @ [f]\<rparr>]\<rparr>)
     \<and> (get_prop message ''message'' = Some m \<and> get_prop message ''reply_to'' = Some r \<longrightarrow>
           sendMessage message s =
             (ws_send i (JSON_stringify [(''message'', m), (''reply_to'', r)]) s, Returned)
           \<and> map_of (JSON_stringify [(''message'', m), (''reply_to'', r)]) ''type'' = None
           \<and> (m \<noteq> JUndefined \<and> r \<noteq> JUndefined \<longrightarrow>
                JSON_stringify [(''message'', m), (''reply_to'', r)]
                  = [(''message'', m), (''reply_to'', r)]))
     \<and> replyToMessage messageId content (Some n) s =
          ws_send i [(''message'', JStr content), (''reply_to'', JNum n)] s
     \<and> replyToMessage messageId content None s = ws_send i [(''message'', JStr content)] s
     \<and> sendReaction messageId emoji s =
          ws_send i [(''type'', JStr ''reaction''), (''message_id'', JNum messageId),
                     (''emoji'', JStr emoji)] s
     \<and> sendReadReceipt messageId s =
          ws_send i [(''type'', JStr ''read_receipt''), (''message_id'', JNum messageId)] s
     \<and> editMessage messageId content s =
          ws_send i [(''type'', JStr ''edit_message''), (''message_id'', JNum messageId),
                     (''content'', JStr content)] s
     \<and> deleteMessage messageId s =
          ws_send i [(''type'', JStr ''delete_message''), (''message_id'', JNum messageId)] s
     \<and> heartbeat_tick s = ws_send i [(''type'', JStr ''ping'')] s"
proof -
  from assms have op: "socket_open s"
    by (simp add: socket_open_def)
  from assms(2) have snd: "\<And>f. ws_send i f s =
      s\<lparr>sockets := (sockets s)[i := (sockets s ! i)\<lparr>sent := sent (sockets s ! i) @ [f]\<rparr>]\<rparr>"
    by (simp add: ws_send_def map_socket_def)
  have msg: "get_prop message ''message'' = Some m \<and> get_prop message ''reply_to'' = Some r \<longrightarrow>
           sendMessage message s =
             (ws_send i (JSON_stringify [(''message'', m), (''reply_to'', r)]) s, Returned)"
    using op assms(1) by (simp add: sendMessage_def)
  have notag: "map_of (JSON_stringify [(''message'', m), (''reply_to'', r)]) ''type'' = None"
    by (simp add: JSON_stringify_def)
  have full: "m \<noteq> JUndefined \<and> r \<noteq> JUndefined \<longrightarrow>
                JSON_stringify [(''message'', m), (''reply_to'', r)]
                  = [(''message'', m), (''reply_to'', r)]"
    by (simp add: JSON_stringify_def)
  have rest: "replyToMessage messageId content (Some n) s =
          ws_send i [(''message'', JStr content), (''reply_to'', JNum n)] s"
     "replyToMessage messageId content None s = ws_send i [(''message'', JStr content)] s"
     "sendReaction messageId emoji s =
          ws_send i [(''type'', JStr ''reaction''), (''message_id'', JNum messageId),
                     (''emoji'', JStr emoji)] s"
     "sendReadReceipt messageId s =
          ws_send i [(''type'', JStr ''read_receipt''), (''message_id'', JNum messageId)] s"
     "editMessage messageId content s =
          ws_send i [(''type'', JStr ''edit_message''), (''message_id'', JNum messageId),
                     (''content'', JStr content)] s"
     "deleteMessage messageId s =
          ws_send i [(''type'', JStr ''delete_message''), (''message_id'', JNum messageId)] s"
     "heartbeat_tick s = ws_send i [(''type'', JStr ''ping'')] s"
    using op assms(1)
    by (simp_all add: replyToMessage_def sendReaction_def sendReadReceipt_def editMessage_def
        deleteMessage_def heartbeat_tick_def JSON_stringify_def)
  from snd msg notag full rest show ?thesis
    by blast
qed

theorem outbound_frame_encoding_witness:
  "map sent (sockets (sendReaction 5 ''+1''
       (run (\<lambda>cb d. False) (init ''https:'' ''h'' 0) [Connect ''r'', SocketOpen 0])))
     = [[[(''type'', JStr ''reaction''), (''message_id'', JNum 5), (''emoji'', JStr ''+1'')]]]
   \<and> map sent (sockets (fst (sendMessage (JObj [(''message'', JStr ''hi''), (''reply_to'', JNull)])
       (run (\<lambda>cb d. False) (init ''https:'' ''h'' 0) [Connect ''r'', SocketOpen 0]))))
     = [[[(''message'', JStr ''hi''), (''reply_to'', JNull)]]]
   \<and> map sent (sockets (heartbeat_tick
       (run (\<lambda>cb d. False) (init ''https:'' ''h'' 0) [Connect ''r'', SocketOpen 0])))
     = [[[(''type'', JStr ''ping'')]]]"
proof -
  let ?s = "run (\<lambda>cb d. False) (init ''https:'' ''h'' 0) [Connect ''r'', SocketOpen 0]"
  let ?m = "JObj [(''message'', JStr ''hi''), (''reply_to'', JNull)]"
  have h: "socket ?s = Some 0" "0 < length (sockets ?s)" "ws_state (sockets ?s ! 0) = OPEN"
    by (simp_all add: opened_state)
  have g: "get_prop ?m ''message'' = Some (JStr ''hi'') \<and> get_prop ?m ''reply_to'' = Some JNull"
    by simp
  from outbound_frame_encoding [where message = ?m and m = "JStr ''hi''" and r = JNull
      and messageId = 5 and emoji = "''+1''", OF h] g
  show ?thesis
    by (simp add: opened_state)
qed

subsection \<open>Inbound dispatch\<close>

lemma try_catch_simps:
  "try_catch (s, Returned) h = (s, Returned)"
  "try_catch (s, Thrown) h = (h s, Returned)"
  by (simp_all add: try_catch_def)

lemma forEach_lastHeartbeat:
  "lastHeartbeat (fst (forEach raises cbs data s)) = lastHeartbeat s"
  by (induction cbs arbitrary: s) (simp_all add: Let_def)

lemma try_catch_lastHeartbeat:
  "lastHeartbeat (fst (try_catch r (console_error m))) = lastHeartbeat (fst r)"
  by (cases r) (simp add: try_catch_def console_error_def split: completion.split)

lemma handleMessage_lastHeartbeat:
  "lastHeartbeat (fst (handleMessage raises data s)) = lastHeartbeat s"
  by (simp add: handleMessage_def forEach_lastHeartbeat split: option.split)


text \<open>
  When the transport that opens is the current one (\<^verbatim>\<open>this.socket\<close>), the open event
  installs the handler of \<^verbatim>\<open>startHeartbeat\<close> on it. \<^verbatim>\<open>startHeartbeat\<close> assigns the handler to
  \<^verbatim>\<open>this.socket\<close>, whichever transport the open event belongs to.
\<close>

lemma open_installs_heartbeat_handler:
  assumes "socket s = Some i" and "i < length (sockets s)"
    and "ws_state (sockets s ! i) = CONNECTING"
  shows "onmessage (sockets (step raises s (SocketOpen i)) ! i) = HeartbeatHandler
     \<and> ws_state (sockets (step raises s (SocketOpen i)) ! i) = OPEN"
  using assms
  by (simp add: step_def onopen_def startHeartbeat_def map_socket_def resolve_def Let_def)

text \<open>
  A \<^verbatim>\<open>null\<close> payload parses, but reading its \<^verbatim>\<open>type\<close> throws inside the \<^verbatim>\<open>try\<close>: it is
  reported and dropped like a malformed frame. The handler assigned in \<^verbatim>\<open>connect\<close> has no
  \<^verbatim>\<open>pong\<close> case: it dispatches a \<^verbatim>\<open>pong\<close> over the chat message callbacks.
\<close>

lemma null_payload_dropped:
  "onmessage_heartbeat raises now (Value JNull) s =
     (console_error ''Failed to parse WebSocket message:'' (s\<lparr>lastHeartbeat := now\<rparr>), Returned)"
  by (simp add: onmessage_heartbeat_def try_catch_simps Let_def)

lemma connect_handler_has_no_pong_case:
  "get_prop data ''type'' = Some (JStr ''pong'') \<Longrightarrow>
     onmessage_connect raises now (Value data) s =
       try_catch (forEach raises (messageCallbacks s) data (s\<lparr>lastHeartbeat := now\<rparr>))
         (console_error ''[WebSocket Debug] Failed to parse WebSocket message:'')"
  by (simp add: onmessage_connect_def handleMessage_def Let_def)

text \<open>
  The handler assigned in \<^verbatim>\<open>startHeartbeat\<close>. For every parsed payload whose \<^verbatim>\<open>type\<close> can be
  read (any JSON value but \<^verbatim>\<open>null\<close>), it sets the last-seen timestamp and then: a \<^verbatim>\<open>pong\<close> changes
  nothing else and reaches no subscriber; a payload tagged \<^verbatim>\<open>reaction\<close>, \<^verbatim>\<open>user_status\<close>,
  \<^verbatim>\<open>notification\<close>, \<^verbatim>\<open>message_edited\<close>, \<^verbatim>\<open>message_deleted\<close> or \<^verbatim>\<open>read_receipt\<close> is dispatched
  over the callback list of that kind and no other; any other payload, tagged or not, is
  dispatched over the chat message callbacks. A dispatch in which no callback throws
  invokes every callback of the list once, in order, with the payload.
\<close>

lemma heartbeat_handler_routes:
  assumes "get_prop data ''type'' = Some ty"
  shows
    "(ty = JStr ''pong'' \<longrightarrow>
        onmessage_heartbeat raises now (Value data) s = (s\<lparr>lastHeartbeat := now\<rparr>, Returned))
     \<and> (ty = JStr ''reaction'' \<longrightarrow>
        onmessage_heartbeat raises now (Value data) s =
          try_catch (forEach raises (reactionCallbacks s) data (s\<lparr>lastHeartbeat := now\<rparr>))
            (console_error ''Failed to parse WebSocket message:''))
     \<and> (ty = JStr ''user_status'' \<longrightarrow>
        onmessage_heartbeat raises now (Value data) s =
          try_catch (forEach raises (userStatusCallbacks s) data (s\<lparr>lastHeartbeat := now\<rparr>))
            (console_error ''Failed to parse WebSocket message:''))
     \<and> (ty = JStr ''notification'' \<longrightarrow>
        onmessage_heartbeat raises now (Value data) s =
          try_catch (forEach raises (notificationCallbacks s) data (s\<lparr>lastHeartbeat := now\<rparr>))
            (console_error ''Failed to parse WebSocket message:''))
     \<and> (ty = JStr ''message_edited'' \<longrightarrow>
        onmessage_heartbeat raises now (Value data) s =
          try_catch (forEach raises (messageEditedCallbacks s) data (s\<lparr>lastHeartbeat := now\<rparr>))
            (console_error ''Failed to parse WebSocket message:''))
     \<and> (ty = JStr ''message_deleted'' \<longrightarrow>
        onmessage_heartbeat raises now (Value data) s =
          try_catch (forEach raises (messageDeletedCallbacks s) data (s\<lparr>lastHeartbeat := now\<rparr>))
            (console_error ''Failed to parse WebSocket message:''))
     \<and> (ty = JStr ''read_receipt'' \<longrightarrow>
        onmessage_heartbeat raises now (Value data) s =
          try_catch (forEach raises (readReceiptCallbacks s) data (s\<lparr>lastHeartbeat := now\<rparr>))
            (console_error ''Failed to parse WebSocket message:''))
     \<and> (ty \<notin> {JStr ''pong'', JStr ''reaction'', JStr ''user_status'', JStr ''notification'',
                JStr ''message_edited'', JStr ''message_deleted'', JStr ''read_receipt''} \<longrightarrow>
        onmessage_heartbeat raises now (Value data) s =
          try_catch (forEach raises (messageCallbacks s) data (s\<lparr>lastHeartbeat := now\<rparr>))
            (console_error ''Failed to parse WebSocket message:''))
     \<and> lastHeartbeat (fst (onmessage_heartbeat raises now (Value data) s)) = now
     \<and> (\<forall>cbs s1. (\<forall>cb \<in> set cbs. \<not> raises cb data) \<longrightarrow>
           try_catch (forEach raises cbs data s1)
             (console_error ''Failed to parse WebSocket message:'')
           = (s1\<lparr>invoked := invoked s1 @ map (\<lambda>cb. (cb, data)) cbs\<rparr>, Returned))"
proof -
  have lh: "lastHeartbeat (fst (onmessage_heartbeat raises now (Value data) s)) = now"
    using assms
    by (simp add: onmessage_heartbeat_def Let_def try_catch_lastHeartbeat
        handleMessage_lastHeartbeat)
  have quiet: "\<forall>cbs s1. (\<forall>cb \<in> set cbs. \<not> raises cb data) \<longrightarrow>
           try_catch (forEach raises cbs data s1)
             (console_error ''Failed to parse WebSocket message:'')
           = (s1\<lparr>invoked := invoked s1 @ map (\<lambda>cb. (cb, data)) cbs\<rparr>, Returned)"
    by (simp add: forEach_no_throw try_catch_def)
  have routes:
    "ty = JStr ''pong'' \<longrightarrow>
        onmessage_heartbeat raises now (Value data) s = (s\<lparr>lastHeartbeat := now\<rparr>, Returned)"
    "ty = JStr ''reaction'' \<longrightarrow>
        onmessage_heartbeat raises now (Value data) s =
          try_catch (forEach raises (reactionCallbacks s) data (s\<lparr>lastHeartbeat := now\<rparr>))
            (console_error ''Failed to parse WebSocket message:'')"
    "ty = JStr ''user_status'' \<longrightarrow>
        onmessage_heartbeat raises now (Value data) s =
          try_catch (forEach raises (userStatusCallbacks s) data (s\<lparr>lastHeartbeat := now\<rparr>))
            (console_error ''Failed to parse WebSocket message:'')"
    "ty = JStr ''notification'' \<longrightarrow>
        onmessage_heartbeat raises now (Value data) s =
          try_catch (forEach raises (notificationCallbacks s) data (s\<lparr>lastHeartbeat := now\<rparr>))
            (console_error ''Failed to parse WebSocket message:'')"
    "ty = JStr ''message_edited'' \<longrightarrow>
        onmessage_heartbeat raises now (Value data) s =
          try_catch (forEach raises (messageEditedCallbacks s) data (s\<lparr>lastHeartbeat := now\<rparr>))
            (console_error ''Failed to parse WebSocket message:'')"
    "ty = JStr ''message_deleted'' \<longrightarrow>
        onmessage_heartbeat raises now (Value data) s =
          try_catch (forEach raises (messageDeletedCallbacks s) data (s\<lparr>lastHeartbeat := now\<rparr>))
            (console_error ''Failed to parse WebSocket message:'')"
    "ty = JStr ''read_receipt'' \<longrightarrow>
        onmessage_heartbeat raises now (Value data) s =
          try_catch (forEach raises (readReceiptCallbacks s) data (s\<lparr>lastHeartbeat := now\<rparr>))
            (console_error ''Failed to parse WebSocket message:'')"
    "ty \<notin> {JStr ''pong'', JStr ''reaction'', JStr ''user_status'', JStr ''notification'',
                JStr ''message_edited'', JStr ''message_deleted'', JStr ''read_receipt''} \<longrightarrow>
        onmessage_heartbeat raises now (Value data) s =
          try_catch (forEach raises (messageCallbacks s) data (s\<lparr>lastHeartbeat := now\<rparr>))
            (console_error ''Failed to parse WebSocket message:'')"
    using assms
    by (simp_all add: onmessage_heartbeat_def handleMessage_def Let_def try_catch_simps)
  from routes lh quiet show ?thesis
    by (intro conjI)
qed

lemma heartbeat_handler_routes_example:
  "get_prop (JObj [(''message'', JStr ''hi'')]) ''type'' = Some JUndefined
   \<and> invoked (fst (onmessage_heartbeat (\<lambda>cb d. False) 42 (Value (JObj [(''message'', JStr ''hi'')]))
        (onReaction 8 (onMessage 7
           (run (\<lambda>cb d. False) (init ''https:'' ''h'' 0) [Connect ''r'', SocketOpen 0])))))
       = [(7, JObj [(''message'', JStr ''hi'')])]
   \<and> invoked (run (\<lambda>cb d. False)
        (onReaction 8 (onMessage 7
           (run (\<lambda>cb d. False) (init ''https:'' ''h'' 0) [Connect ''r'', SocketOpen 0])))
        [SocketMessage 0 (Value (JObj [(''message'', JStr ''hi'')])) 42,
         SocketMessage 0 (Value (JObj [(''type'', JStr ''pong'')])) 43,
         SocketMessage 0 (Value (JObj [(''type'', JStr ''reaction''), (''message_id'', JNum 5),
                                       (''emoji'', JStr ''+1'')])) 44])
       = [(7, JObj [(''message'', JStr ''hi'')]),
          (8, JObj [(''type'', JStr ''reaction''), (''message_id'', JNum 5),
                    (''emoji'', JStr ''+1'')])]
   \<and> lastHeartbeat (run (\<lambda>cb d. False)
        (onReaction 8 (onMessage 7
           (run (\<lambda>cb d. False) (init ''https:'' ''h'' 0) [Connect ''r'', SocketOpen 0])))
        [SocketMessage 0 (Value (JObj [(''message'', JStr ''hi'')])) 42,
         SocketMessage 0 (Value (JObj [(''type'', JStr ''pong'')])) 43]) = 43"
proof -
  let ?d = "JObj [(''message'', JStr ''hi'')]"
  let ?s = "onReaction 8 (onMessage 7
           (run (\<lambda>cb d. False) (init ''https:'' ''h'' 0) [Connect ''r'', SocketOpen 0]))"
  have g: "get_prop ?d ''type'' = Some JUndefined"
    by simp
  have cbs: "messageCallbacks ?s = [7]"
    by (simp add: opened_state onReaction_def onMessage_def)
  have inv: "invoked ?s = []"
    by (simp add: opened_state onReaction_def onMessage_def)
  note inst = heartbeat_handler_routes [OF g, where raises = "\<lambda>cb d. False" and now = 42
      and s = ?s]
  have a: "invoked (fst (onmessage_heartbeat (\<lambda>cb d. False) 42 (Value ?d) ?s)) = [(7, ?d)]"
    using inst by (simp add: cbs inv try_catch_simps)
  have b: "invoked (run (\<lambda>cb d. False) ?s
        [SocketMessage 0 (Value ?d) 42,
         SocketMessage 0 (Value (JObj [(''type'', JStr ''pong'')])) 43,
         SocketMessage 0 (Value (JObj [(''type'', JStr ''reaction''), (''message_id'', JNum 5),
                                       (''emoji'', JStr ''+1'')])) 44])
       = [(7, ?d),
          (8, JObj [(''type'', JStr ''reaction''), (''message_id'', JNum 5),
                    (''emoji'', JStr ''+1'')])]"
    by (simp only: opened_state)
      (simp add: onReaction_def onMessage_def run_def step_def
        onmessage_heartbeat_def handleMessage_def try_catch_simps Let_def)
  have c: "lastHeartbeat (run (\<lambda>cb d. False) ?s
        [SocketMessage 0 (Value ?d) 42,
         SocketMessage 0 (Value (JObj [(''type'', JStr ''pong'')])) 43]) = 43"
    by (simp only: opened_state)
      (simp add: onReaction_def onMessage_def run_def step_def
        onmessage_heartbeat_def handleMessage_def try_catch_simps Let_def)
  from g a b c show ?thesis
    by (intro conjI)
qed

subsection \<open>A throwing subscriber\<close>




subsection \<open>One transport at a time\<close>

text \<open>
  What a single call of \<^verbatim>\<open>connect\<close> does when no promise is held: with the current transport
  open it resolves a new promise with that transport and creates nothing; otherwise it
  creates one transport for the room.
\<close>

lemma connect_open_resolves:
  assumes "connectionPromise s = None" and "socket s = Some i" and "i < length (sockets s)"
    and "ws_state (sockets s ! i) = OPEN"
  shows "connect room s =
     (s\<lparr>promises := promises s @ [Resolved i],
        connectionPromise := Some (length (promises s))\<rparr>, length (promises s))"
  using assms
  by (simp add: connect_def socket_open_def resolve_def Let_def)

lemma connect_creates_transport:
  assumes "connectionPromise s = None" and "\<not> socket_open s"
  shows "sockets (fst (connect room s)) =
     sockets s @ [\<lparr>url = wsUrl s room, ws_state = CONNECTING, ws_room = room,
                    ws_promise = length (promises s), onmessage = ConnectHandler,
                    sent = [], close_calls = []\<rparr>]"
proof -
  have "socket_open (s\<lparr>promises := promises s @ [Pending]\<rparr>) = socket_open s"
    by (simp add: socket_open_def split: option.split)
  with assms show ?thesis
    by (simp add: connect_def wsUrl_def Let_def)
qed

text \<open>
  The state after \<^verbatim>\<open>connect("r")\<close>, the open event, \<^verbatim>\<open>disconnect()\<close>, \<^verbatim>\<open>connect("q")\<close> and then
  the close event (code 1000) of the first transport, which \<^verbatim>\<open>disconnect\<close> had closed.
\<close>

lemma stale_close_state:
  "run raises (init ''https:'' ''h'' 0)
       [Connect ''r'', SocketOpen 0, Disconnect, Connect ''q'', SocketClose 0 1000] =
     \<lparr> socket = Some 1, reconnectAttempts = 0, reconnectTimeout = None,
       heartbeatInterval = None, lastHeartbeat = 0,
       messageCallbacks = [], reactionCallbacks = [], userStatusCallbacks = [],
       notificationCallbacks = [], messageEditedCallbacks = [],
       messageDeletedCallbacks = [], readReceiptCallbacks = [],
       connectionPromise = None,
       sockets = [\<lparr>url = ''wss://h/ws/chat/r/'', ws_state = CLOSED, ws_room = ''r'',
                   ws_promise = 0, onmessage = HeartbeatHandler, sent = [],
                   close_calls = [(1000, ''Client disconnect'')]\<rparr>,
                  \<lparr>url = ''wss://h/ws/chat/q/'', ws_state = CONNECTING, ws_room = ''q'',
                   ws_promise = 1, onmessage = ConnectHandler, sent = [],
                   close_calls = []\<rparr>],
       promises = [Resolved 0, Pending], timers = [], intervals = [False], invoked = [],
       console_errors = [], location_protocol = ''https:'', location_host = ''h'' \<rparr>"
  by (simp add: run_def step_def connect_def disconnect_def onopen_def onclose_def init_def
      socket_open_def startHeartbeat_def stopHeartbeat_def map_socket_def resolve_def
      ws_close_def clearInterval_def wsUrl_def Let_def)

text \<open>
  C2. A call of \<^verbatim>\<open>connect\<close> that finds \<^verbatim>\<open>connectionPromise\<close> set returns it and creates no
  transport, and one that finds no promise and the current transport open resolves with
  that transport. The invariant drawn from this is not kept by the code: the close handler
  of a transport clears \<^verbatim>\<open>connectionPromise\<close> whichever attempt the field belongs to. In the
  state above the attempt for room \<open>q\<close> is still pending and its transport connecting, yet
  no promise is held; \<^verbatim>\<open>connect("q")\<close> then returns a new promise and creates a further
  transport, and two transports are live.
\<close>

theorem stale_close_second_transport:
  "connectionPromise (run (\<lambda>cb d. False) (init ''https:'' ''h'' 0)
       [Connect ''r'', SocketOpen 0, Disconnect, Connect ''q'', SocketClose 0 1000]) = None
   \<and> map ws_state (sockets (run (\<lambda>cb d. False) (init ''https:'' ''h'' 0)
       [Connect ''r'', SocketOpen 0, Disconnect, Connect ''q'', SocketClose 0 1000]))
       = [CLOSED, CONNECTING]
   \<and> promises (run (\<lambda>cb d. False) (init ''https:'' ''h'' 0)
       [Connect ''r'', SocketOpen 0, Disconnect, Connect ''q'', SocketClose 0 1000])
       = [Resolved 0, Pending]
   \<and> snd (connect ''q'' (run (\<lambda>cb d. False) (init ''https:'' ''h'' 0)
       [Connect ''r'', SocketOpen 0, Disconnect, Connect ''q'', SocketClose 0 1000])) = 2
   \<and> map ws_state (sockets (fst (connect ''q'' (run (\<lambda>cb d. False) (init ''https:'' ''h'' 0)
       [Connect ''r'', SocketOpen 0, Disconnect, Connect ''q'', SocketClose 0 1000]))))
       = [CLOSED, CONNECTING, CONNECTING]
   \<and> length (live_transports (fst (connect ''q'' (run (\<lambda>cb d. False) (init ''https:'' ''h'' 0)
       [Connect ''r'', SocketOpen 0, Disconnect, Connect ''q'', SocketClose 0 1000])))) = 2"
  by (simp only: stale_close_state)
    (simp add: connect_def socket_open_def live_transports_def Let_def)

text \<open>
  C10. \<^verbatim>\<open>connect\<close> ignores its argument when the field \<^verbatim>\<open>connectionPromise\<close> is set, and that
  field is not set throughout an attempt. In the state above the attempt for room \<open>q\<close> is in
  flight (its transport connecting, its promise pending) while the field is null: there
  \<^verbatim>\<open>connect("x")\<close> does not return the pending promise of \<open>q\<close>. It returns a new one, opens a
  transport to the URL of room \<open>x\<close> with handlers that reconnect to \<open>x\<close>, and makes it the
  current transport.
\<close>

theorem stale_close_connect_takes_new_room:
  "map ws_state (sockets (run (\<lambda>cb d. False) (init ''https:'' ''h'' 0)
       [Connect ''r'', SocketOpen 0, Disconnect, Connect ''q'', SocketClose 0 1000]))
       = [CLOSED, CONNECTING]
   \<and> map ws_room (sockets (run (\<lambda>cb d. False) (init ''https:'' ''h'' 0)
       [Connect ''r'', SocketOpen 0, Disconnect, Connect ''q'', SocketClose 0 1000]))
       = [''r'', ''q'']
   \<and> promises (run (\<lambda>cb d. False) (init ''https:'' ''h'' 0)
       [Connect ''r'', SocketOpen 0, Disconnect, Connect ''q'', SocketClose 0 1000])
       = [Resolved 0, Pending]
   \<and> snd (connect ''x'' (run (\<lambda>cb d. False) (init ''https:'' ''h'' 0)
       [Connect ''r'', SocketOpen 0, Disconnect, Connect ''q'', SocketClose 0 1000])) = 2
   \<and> socket (fst (connect ''x'' (run (\<lambda>cb d. False) (init ''https:'' ''h'' 0)
       [Connect ''r'', SocketOpen 0, Disconnect, Connect ''q'', SocketClose 0 1000]))) = Some 2
   \<and> map url (sockets (fst (connect ''x'' (run (\<lambda>cb d. False) (init ''https:'' ''h'' 0)
       [Connect ''r'', SocketOpen 0, Disconnect, Connect ''q'', SocketClose 0 1000]))))
       = [''wss://h/ws/chat/r/'', ''wss://h/ws/chat/q/'', ''wss://h/ws/chat/x/'']
   \<and> map ws_room (sockets (fst (connect ''x'' (run (\<lambda>cb d. False) (init ''https:'' ''h'' 0)
       [Connect ''r'', SocketOpen 0, Disconnect, Connect ''q'', SocketClose 0 1000]))))
       = [''r'', ''q'', ''x'']"
  by (simp only: stale_close_state)
    (simp add: connect_def socket_open_def wsUrl_def Let_def)

subsection \<open>Frames on a transport that is not the current one\<close>

text \<open>
  The handler assigned in \<^verbatim>\<open>connect\<close> routes like \<^verbatim>\<open>handleMessage\<close> alone: the six tags to
  their lists, everything else, a \<^verbatim>\<open>pong\<close> included, to the chat message callbacks.
\<close>

lemma connect_handler_routes:
  assumes "get_prop data ''type'' = Some ty"
  shows "onmessage_connect raises now (Value data) s =
     try_catch
       (forEach raises
          (if ty = JStr ''reaction'' then reactionCallbacks s
           else if ty = JStr ''user_status'' then userStatusCallbacks s
           else if ty = JStr ''notification'' then notificationCallbacks s
           else if ty = JStr ''message_edited'' then messageEditedCallbacks s
           else if ty = JStr ''message_deleted'' then messageDeletedCallbacks s
           else if ty = JStr ''read_receipt'' then readReceiptCallbacks s
           else messageCallbacks s)
          data (s\<lparr>lastHeartbeat := now\<rparr>))
       (console_error ''[WebSocket Debug] Failed to parse WebSocket message:'')"
  using assms
  by (simp add: onmessage_connect_def handleMessage_def Let_def)

text \<open>
  The state above, after the further \<^verbatim>\<open>connect("q")\<close> and the open event of transport 1, the
  first transport of room \<open>q\<close>: \<^verbatim>\<open>startHeartbeat\<close> has replaced the handler of transport 2,
  the current one, and transport 1 is open with the handler of \<^verbatim>\<open>connect\<close>.
\<close>

lemma stale_open_state:
  "run raises (init ''https:'' ''h'' 0)
       [Connect ''r'', SocketOpen 0, Disconnect, Connect ''q'', SocketClose 0 1000,
        Connect ''q'', SocketOpen 1] =
     \<lparr> socket = Some 2, reconnectAttempts = 0, reconnectTimeout = None,
       heartbeatInterval = Some 1, lastHeartbeat = 0,
       messageCallbacks = [], reactionCallbacks = [], userStatusCallbacks = [],
       notificationCallbacks = [], messageEditedCallbacks = [],
       messageDeletedCallbacks = [], readReceiptCallbacks = [],
       connectionPromise = Some 2,
       sockets = [\<lparr>url = ''wss://h/ws/chat/r/'', ws_state = CLOSED, ws_room = ''r'',
                   ws_promise = 0, onmessage = HeartbeatHandler, sent = [],
                   close_calls = [(1000, ''Client disconnect'')]\<rparr>,
                  \<lparr>url = ''wss://h/ws/chat/q/'', ws_state = OPEN, ws_room = ''q'',
                   ws_promise = 1, onmessage = ConnectHandler, sent = [],
                   close_calls = []\<rparr>,
                  \<lparr>url = ''wss://h/ws/chat/q/'', ws_state = CONNECTING, ws_room = ''q'',
                   ws_promise = 2, onmessage = HeartbeatHandler, sent = [],
                   close_calls = []\<rparr>],
       promises = [Resolved 0, Resolved 2, Pending], timers = [], intervals = [False, True],
       invoked = [], console_errors = [], location_protocol = ''https:'',
       location_host = ''h'' \<rparr>"
  by (simp add: run_def step_def connect_def disconnect_def onopen_def onclose_def init_def
      socket_open_def startHeartbeat_def stopHeartbeat_def map_socket_def resolve_def
      ws_close_def clearInterval_def wsUrl_def Let_def)

text \<open>
  C4. The six tags and the untagged payloads are routed alike by both message handlers,
  but only the one assigned in \<^verbatim>\<open>startHeartbeat\<close> drops a \<^verbatim>\<open>pong\<close>, and an open transport
  need not carry it. In the state above, with subscriber 7 registered for chat messages, a
  \<^verbatim>\<open>pong\<close> frame on transport 1 sets the last-seen timestamp and is dispatched to
  subscriber 7.
\<close>

theorem pong_forwarded_on_stale_transport:
  "map ws_state (sockets (run (\<lambda>cb d. False) (init ''https:'' ''h'' 0)
       [Connect ''r'', SocketOpen 0, Disconnect, Connect ''q'', SocketClose 0 1000,
        Connect ''q'', SocketOpen 1])) = [CLOSED, OPEN, CONNECTING]
   \<and> map onmessage (sockets (run (\<lambda>cb d. False) (init ''https:'' ''h'' 0)
       [Connect ''r'', SocketOpen 0, Disconnect, Connect ''q'', SocketClose 0 1000,
        Connect ''q'', SocketOpen 1])) = [HeartbeatHandler, ConnectHandler, HeartbeatHandler]
   \<and> invoked (step (\<lambda>cb d. False)
        (onMessage 7 (run (\<lambda>cb d. False) (init ''https:'' ''h'' 0)
           [Connect ''r'', SocketOpen 0, Disconnect, Connect ''q'', SocketClose 0 1000,
            Connect ''q'', SocketOpen 1]))
        (SocketMessage 1 (Value (JObj [(''type'', JStr ''pong'')])) 50))
       = [(7, JObj [(''type'', JStr ''pong'')])]
   \<and> lastHeartbeat (step (\<lambda>cb d. False)
        (onMessage 7 (run (\<lambda>cb d. False) (init ''https:'' ''h'' 0)
           [Connect ''r'', SocketOpen 0, Disconnect, Connect ''q'', SocketClose 0 1000,
            Connect ''q'', SocketOpen 1]))
        (SocketMessage 1 (Value (JObj [(''type'', JStr ''pong'')])) 50)) = 50"
  by (simp only: stale_open_state)
    (simp add: step_def onMessage_def onmessage_connect_def handleMessage_def
      try_catch_simps Let_def)

subsection \<open>Disconnect\<close>

text \<open>What \<^verbatim>\<open>disconnect\<close> does in every state, and the terminal path of the close handler.\<close>

lemma disconnect_effects:
  "heartbeatInterval (disconnect s) = None
   \<and> reconnectTimeout (disconnect s) = None
   \<and> socket (disconnect s) = None
   \<and> connectionPromise (disconnect s) = None
   \<and> reconnectAttempts (disconnect s) = 0
   \<and> (\<forall>t. reconnectTimeout s = Some t \<and> t < length (timers s) \<longrightarrow>
         status (timers (disconnect s) ! t) \<noteq> Scheduled)
   \<and> (\<forall>i. socket s = Some i \<and> i < length (sockets s) \<longrightarrow>
         close_calls (sockets (disconnect s) ! i)
           = close_calls (sockets s ! i) @ [(1000, ''Client disconnect'')])
   \<and> (socket s = None \<longrightarrow> sockets (disconnect s) = sockets s)"
  by (auto simp add: disconnect_def stopHeartbeat_def clearInterval_def clearTimeout_def
      ws_close_def map_socket_def Let_def split: option.split)

lemma terminal_close:
  "timers (onclose room 1000 s) = timers s \<and> connectionPromise (onclose room 1000 s) = None"
  by (simp add: onclose_def)

text \<open>
  The state after \<^verbatim>\<open>connect("r")\<close> and a failed attempt: the error event and the close event
  (code 1006) of the transport, each of which runs \<^verbatim>\<open>attemptReconnect\<close>.
\<close>

lemma failed_attempt_state:
  "run raises (init ''https:'' ''h'' 0) [Connect ''r'', SocketError 0, SocketClose 0 1006] =
     \<lparr> socket = Some 0, reconnectAttempts = 2, reconnectTimeout = Some 1,
       heartbeatInterval = None, lastHeartbeat = 0,
       messageCallbacks = [], reactionCallbacks = [], userStatusCallbacks = [],
       notificationCallbacks = [], messageEditedCallbacks = [],
       messageDeletedCallbacks = [], readReceiptCallbacks = [],
       connectionPromise = None,
       sockets = [\<lparr>url = ''wss://h/ws/chat/r/'', ws_state = CLOSED, ws_room = ''r'',
                   ws_promise = 0, onmessage = ConnectHandler, sent = [],
                   close_calls = []\<rparr>],
       promises = [Rejected],
       timers = [\<lparr>delay = 1000, target = ''r'', status = Scheduled\<rparr>,
                 \<lparr>delay = 2000, target = ''r'', status = Scheduled\<rparr>],
       intervals = [], invoked = [],
       console_errors = [''[WebSocket Debug] WebSocket connection error:''],
       location_protocol = ''https:'', location_host = ''h'' \<rparr>"
  by (simp add: run_def step_def connect_def onerror_def onclose_def init_def
      socket_open_def stopHeartbeat_def map_socket_def reject_def attemptReconnect_def
      console_error_def maxReconnectAttempts_def reconnectDelay_def wsUrl_def Let_def)

text \<open>
  C5. \<^verbatim>\<open>disconnect\<close> clears the one timer \<^verbatim>\<open>reconnectTimeout\<close> refers to. \<^verbatim>\<open>attemptReconnect\<close>
  overwrites that field without clearing the timer it held, so after a failed attempt two
  timers are scheduled and \<^verbatim>\<open>disconnect\<close> cancels the later one only: the earlier one is
  still scheduled after \<^verbatim>\<open>disconnect\<close>, and when it fires \<^verbatim>\<open>connect\<close> creates a new transport.
\<close>

theorem reconnect_timer_survives_disconnect:
  "map status (timers (run (\<lambda>cb d. False) (init ''https:'' ''h'' 0)
       [Connect ''r'', SocketError 0, SocketClose 0 1006])) = [Scheduled, Scheduled]
   \<and> map status (timers (disconnect (run (\<lambda>cb d. False) (init ''https:'' ''h'' 0)
       [Connect ''r'', SocketError 0, SocketClose 0 1006]))) = [Scheduled, Cleared]
   \<and> reconnectTimeout (disconnect (run (\<lambda>cb d. False) (init ''https:'' ''h'' 0)
       [Connect ''r'', SocketError 0, SocketClose 0 1006])) = None
   \<and> map ws_state (sockets (disconnect (run (\<lambda>cb d. False) (init ''https:'' ''h'' 0)
       [Connect ''r'', SocketError 0, SocketClose 0 1006]))) = [CLOSED]
   \<and> map ws_state (sockets (step (\<lambda>cb d. False)
         (disconnect (run (\<lambda>cb d. False) (init ''https:'' ''h'' 0)
            [Connect ''r'', SocketError 0, SocketClose 0 1006]))
         (TimerFire 0))) = [CLOSED, CONNECTING]
   \<and> connectionPromise (step (\<lambda>cb d. False)
         (disconnect (run (\<lambda>cb d. False) (init ''https:'' ''h'' 0)
            [Connect ''r'', SocketError 0, SocketClose 0 1006]))
         (TimerFire 0)) = Some 1"
  by (simp only: failed_attempt_state)
    (simp add: step_def connect_def disconnect_def socket_open_def stopHeartbeat_def
      map_socket_def ws_close_def clearTimeout_def wsUrl_def Let_def)

end
